theory Spec2Isabelle
  imports Main "HOL-Library.AList"
begin

section \<open>The Python values, errors and the world the wrapper acts on\<close>

text \<open>
  The wrapper (gmt/clib/functions.py and gmt/figure.py) only forwards calls to the native
  GMT library and builds keyword dictionaries. Its observable behaviour is the sequence of
  native calls it makes, the files it can see (those of the current directory by their
  names, any other by its path), and the exceptions it raises.
  Keyword arguments are Python dictionaries: association lists in insertion order, looked
  up with \<open>map_of\<close> and written with \<open>AList.update\<close> (replace in place, or append).
\<close>

datatype pyval = Str string | Bool bool | Integer int

type_synonym kwargs = "(string \<times> pyval) list"

text \<open>
  Every \<open>assert\<close> of the two files, by its message:
  \<open>Failed_creating_pointer\<close> is "Failed creating GMT API pointer using create_session.",
  \<open>Failed_returning_None\<close> is "Failed returning None.",
  \<open>Failed_with_status st\<close> is "Failed with status code st.",
  \<open>Invalid_orientation s\<close> is "Invalid orientation 's'.",
  \<open>Unknown_extension e\<close> is "Unknown extension '.e'" and
  \<open>Transparency_unavailable e\<close> is "Transparency unavailable for 'e', only for png.".
  The asserts are read as Python runs them by default (not under the interpreter's -O
  switch, which removes them).
\<close>

datatype assertion =
    Failed_creating_pointer
  | Failed_returning_None
  | Failed_with_status int
  | Invalid_orientation string
  | Unknown_extension string
  | Transparency_unavailable string

datatype error = AssertionError assertion | TypeError | FileExistsError | FileNotFoundError

text \<open>
  A native call, as the library sees it. \<open>Create_Session name pad mode print_func handle\<close>
  records the four arguments of GMT_Create_Session and the handle it returned (\<open>None\<close> is
  the NULL pointer, which ctypes delivers as Python's None for a \<open>c_void_p\<close> result);
  \<open>Call_Module session module mode args\<close> records the arguments of GMT_Call_Module;
  \<open>Destroy_Session session\<close> is the release of a session.
\<close>

datatype event =
    Create_Session string nat nat "nat option" "nat option"
  | Call_Module nat string int string
  | Destroy_Session nat

record world =
  trace :: "event list"
  files :: "string set"
  drawn :: nat

text \<open>
  What the two source files use and do not define: the constants of gmt/clib/constants.py,
  the two entry points of the shared library that \<open>load_libgmt\<close> returns, the helper
  \<open>build_arg_string\<close>, the decorators \<open>use_alias\<close> and \<open>kwargs_to_strings\<close>, and, from
  Python's tempfile module, the sequence of random candidate names and the number of
  attempts \<open>TMP_MAX\<close>. They are parameters. A native entry point answers as a function of the
  world so far (the whole history of calls and the files); GMT_Call_Module returns the
  status (\<open>None\<close> for a missing one) together with the files of the directory after the call,
  since modules are the file boundary of the library. The last three parameters serve the
  preview methods: the directory that \<open>tempfile.gettempdir()\<close> names, the bytes of a file
  (the library wrote them, so they are a function of the world), and whether the import of
  \<open>IPython.display.Image\<close> succeeded (otherwise \<open>Image\<close> is None).
\<close>

record env =
  GMT_SESSION_NAME :: string
  GMT_PAD_DEFAULT :: nat
  GMT_SESSION_EXTERNAL :: nat
  GMT_MODULE_CMD :: int
  GMT_Create_Session :: "world \<Rightarrow> string \<Rightarrow> nat \<Rightarrow> nat \<Rightarrow> nat option \<Rightarrow> nat option"
  GMT_Call_Module :: "world \<Rightarrow> nat \<Rightarrow> string \<Rightarrow> int \<Rightarrow> string \<Rightarrow> int option \<times> string set"
  build_arg_string :: "kwargs \<Rightarrow> string"
  use_alias :: "(string \<times> string) list \<Rightarrow> kwargs \<Rightarrow> kwargs"
  kwargs_to_strings :: "kwargs \<Rightarrow> kwargs"
  candidates :: "nat \<Rightarrow> string"
  TMP_MAX :: nat
  gettempdir :: string
  file_bytes :: "world \<Rightarrow> string \<Rightarrow> string"
  IPython_installed :: bool

section \<open>gmt/clib/functions.py\<close>

definition create_session :: "env \<Rightarrow> world \<Rightarrow> (error + nat) \<times> world" where
  "create_session env w =
     (let session = GMT_Create_Session env w (GMT_SESSION_NAME env) (GMT_PAD_DEFAULT env)
                      (GMT_SESSION_EXTERNAL env) None;
          w' = w\<lparr>trace := trace w @
                 [Create_Session (GMT_SESSION_NAME env) (GMT_PAD_DEFAULT env)
                    (GMT_SESSION_EXTERNAL env) None session]\<rparr>
      in case session of
           None \<Rightarrow> (Inl (AssertionError Failed_creating_pointer), w')
         | Some h \<Rightarrow> (Inr h, w'))"

text \<open>\<open>module.encode()\<close> and \<open>args.encode()\<close> turn a str into bytes; a \<open>string\<close> is a list
  of bytes already.\<close>

definition call_module :: "env \<Rightarrow> nat \<Rightarrow> string \<Rightarrow> string \<Rightarrow> world \<Rightarrow> (error + unit) \<times> world" where
  "call_module env session module args w =
     (let mode = GMT_MODULE_CMD env;
          (status, out) = GMT_Call_Module env w session module mode args;
          w' = w\<lparr>trace := trace w @ [Call_Module session module mode args], files := out\<rparr>
      in case status of
           None \<Rightarrow> (Inl (AssertionError Failed_returning_None), w')
         | Some st \<Rightarrow>
             if st = 0 then (Inr (), w')
             else (Inl (AssertionError (Failed_with_status st)), w'))"

section \<open>The scoped session\<close>

text \<open>
  Modelled from the spec: the release of a session. The file gmt/clib/functions.py at hand
  defines only \<open>create_session\<close> and \<open>call_module\<close>; the spec says a session is "destroyed
  exactly once" and that creation followed by destruction "leaves no residual file
  artifacts".
\<close>

definition destroy_session :: "nat \<Rightarrow> world \<Rightarrow> world" where
  "destroy_session session w = w\<lparr>trace := trace w @ [Destroy_Session session]\<rparr>"

text \<open>
  Modelled from the spec: \<open>with APISession() as session: body\<close>. The class APISession is
  imported from gmt.clib; its definition is not among the source files at hand. The spec:
  the scoped session lifetime "guarantees the native session is destroyed on every exit
  path from a block of plotting calls (normal completion or error), via a
  resource-acquisition pattern"; acquisition is
  \<open>create_session\<close>, and a failed acquisition never enters the block.
\<close>

definition with_APISession ::
  "env \<Rightarrow> (nat \<Rightarrow> world \<Rightarrow> (error + 'a) \<times> world) \<Rightarrow> world \<Rightarrow> (error + 'a) \<times> world" where
  "with_APISession env body w =
     (case create_session env w of
        (Inl e, w1) \<Rightarrow> (Inl e, w1)
      | (Inr session, w1) \<Rightarrow>
          (case body session w1 of (r, w2) \<Rightarrow> (r, destroy_session session w2)))"

text \<open>A block of module calls, one after the other; the first failing call leaves the
  block with its exception.\<close>

fun call_modules :: "env \<Rightarrow> (string \<times> string) list \<Rightarrow> nat \<Rightarrow> world \<Rightarrow> (error + unit) \<times> world" where
  "call_modules env [] session w = (Inr (), w)"
| "call_modules env ((module, args) # rest) session w =
     (case call_module env session module args w of
        (Inl e, w1) \<Rightarrow> (Inl e, w1)
      | (Inr u, w1) \<Rightarrow> call_modules env rest session w1)"

text \<open>
  The discipline of the scoped session as an automaton over native calls. The first argument
  is the session that is open, if any. A session is created only when none is open, a module
  is called only with the open session, a release closes the open session, and at the end no
  session is open. A creation that returned NULL opens nothing.
\<close>

fun scoped :: "nat option \<Rightarrow> event list \<Rightarrow> bool" where
  "scoped None [] = True"
| "scoped (Some h) [] = False"
| "scoped None (Create_Session n p m f r # es) = scoped r es"
| "scoped (Some h) (Create_Session n p m f r # es) = False"
| "scoped None (Call_Module s md mo a # es) = False"
| "scoped (Some h) (Call_Module s md mo a # es) = (s = h \<and> scoped (Some h) es)"
| "scoped None (Destroy_Session s # es) = False"
| "scoped (Some h) (Destroy_Session s # es) = (s = h \<and> scoped None es)"

fun is_module_call :: "event \<Rightarrow> bool" where
  "is_module_call (Call_Module s md mo a) = True"
| "is_module_call e = False"

section \<open>gmt/figure.py\<close>

definition figure :: "env \<Rightarrow> string \<Rightarrow> world \<Rightarrow> (error + unit) \<times> world" where
  "figure env nm w =
     (let fmt = ''-''
      in with_APISession env
           (\<lambda>session. call_module env session ''figure'' (nm @ '' '' @ fmt)) w)"

subsection \<open>Python's tempfile, as \<open>_unique_name\<close> uses it\<close>

text \<open>
  \<open>NamedTemporaryFile(prefix, dir=os.path.curdir, delete=True)\<close> draws candidate names from
  a random sequence, at most \<open>TMP_MAX\<close> of them, until \<open>prefix + candidate\<close> is not a file of
  the directory, and creates that file (tempfile's \<open>_mkstemp_inner\<close>). The fourth argument
  counts the attempts left, the fifth the candidates drawn so far. The result is the file's
  name and the number of candidates drawn; \<open>None\<close> is the FileExistsError after \<open>TMP_MAX\<close>
  failed attempts.
\<close>

fun mkstemp_inner :: "(nat \<Rightarrow> string) \<Rightarrow> string \<Rightarrow> string set \<Rightarrow> nat \<Rightarrow> nat \<Rightarrow> (string \<times> nat) option" where
  "mkstemp_inner cand pre dir 0 i = None"
| "mkstemp_inner cand pre dir (Suc n) i =
     (let file = pre @ cand i
      in if file \<in> dir then mkstemp_inner cand pre dir n (Suc i) else Some (file, Suc i))"

text \<open>The candidates hold no path separator, so the last component of the temporary file's
  path is the prefix followed by the candidate. Closing the file deletes it.\<close>

definition unique_name :: "env \<Rightarrow> world \<Rightarrow> (error + string) \<times> world" where
  "unique_name env w =
     (case mkstemp_inner (candidates env) ''gmt-python-'' (files w) (TMP_MAX env) (drawn w) of
        None \<Rightarrow> (Inl FileExistsError, w\<lparr>drawn := drawn w + TMP_MAX env\<rparr>)
      | Some (tmpfile, i) \<Rightarrow>
          (let w1 = w\<lparr>files := insert tmpfile (files w), drawn := i\<rparr>;
               nm = tmpfile;
               w2 = w1\<lparr>files := files w1 - {tmpfile}\<rparr>
           in (Inr nm, w2)))"

subsection \<open>The class Figure\<close>

record Figure =
  name :: string

definition Figure_init :: "env \<Rightarrow> world \<Rightarrow> (error + Figure) \<times> world" where
  "Figure_init env w =
     (case unique_name env w of
        (Inl e, w1) \<Rightarrow> (Inl e, w1)
      | (Inr nm, w1) \<Rightarrow> (Inr \<lparr>name = nm\<rparr>, w1))"

text \<open>A method takes the object with the world and returns both: it could assign to
  \<open>self._name\<close>.\<close>

definition preprocess :: "env \<Rightarrow> kwargs \<Rightarrow> Figure \<times> world \<Rightarrow> (error + kwargs) \<times> Figure \<times> world" where
  "preprocess env kwargs st =
     (case st of (self, w) \<Rightarrow>
        (case figure env (name self) w of
           (Inl e, w1) \<Rightarrow> (Inl e, (self, w1))
         | (Inr u, w1) \<Rightarrow> (Inr kwargs, (self, w1))))"

text \<open>The body of \<open>psconvert\<close>, on the keyword dictionary the decorators hand to it.\<close>

definition psconvert_body :: "env \<Rightarrow> kwargs \<Rightarrow> Figure \<times> world \<Rightarrow> (error + unit) \<times> Figure \<times> world" where
  "psconvert_body env kwargs0 st =
     (case preprocess env kwargs0 st of
        (Inl e, st1) \<Rightarrow> (Inl e, st1)
      | (Inr kwargs, (self, w1)) \<Rightarrow>
          (let kwargs = (if map_of kwargs ''A'' = None
                         then AList.update ''A'' (Str '''') kwargs else kwargs);
               kwargs = (if map_of kwargs ''P'' = None
                         then AList.update ''P'' (Str '''') kwargs else kwargs)
           in case with_APISession env
                     (\<lambda>session. call_module env session ''psconvert''
                                   (build_arg_string env kwargs)) w1 of
                (r, w2) \<Rightarrow> (r, (self, w2))))"

text \<open>\<open>@use_alias(F='prefix', T='fmt', A='crop', E='dpi', P='portrait')\<close> and
  \<open>@kwargs_to_strings()\<close> wrap the body, the first outermost; \<open>@fmt_docstring\<close> only
  rewrites the docstring.\<close>

definition psconvert_aliases :: "(string \<times> string) list" where
  "psconvert_aliases =
     [(''F'', ''prefix''), (''T'', ''fmt''), (''A'', ''crop''), (''E'', ''dpi''), (''P'', ''portrait'')]"

definition psconvert :: "env \<Rightarrow> kwargs \<Rightarrow> Figure \<times> world \<Rightarrow> (error + unit) \<times> Figure \<times> world" where
  "psconvert env kwargs st =
     psconvert_body env (kwargs_to_strings env (use_alias env psconvert_aliases kwargs)) st"

subsection \<open>\<open>os.path.splitext\<close> (posixpath) and \<open>str.upper\<close>\<close>

text \<open>\<open>p.rfind(c)\<close>: the index of the last \<open>c\<close> in \<open>p\<close>, or -1.\<close>

fun rfind :: "char \<Rightarrow> string \<Rightarrow> int" where
  "rfind c [] = - 1"
| "rfind c (x # xs) =
     (let r = rfind c xs in if 0 \<le> r then r + 1 else if x = c then 0 else - 1)"

text \<open>The loop of \<open>genericpath._splitext\<close> over the file name before its last dot: the
  path is split as soon as one character is not a dot.\<close>

fun skip_leading_dots :: "string \<Rightarrow> bool" where
  "skip_leading_dots [] = False"
| "skip_leading_dots (c # cs) = (if c \<noteq> CHR ''.'' then True else skip_leading_dots cs)"

definition splitext :: "string \<Rightarrow> string \<times> string" where
  "splitext p =
     (let sepIndex = rfind CHR ''/'' p;
          dotIndex = rfind CHR ''.'' p
      in if dotIndex > sepIndex \<and>
            skip_leading_dots (take (nat (dotIndex - (sepIndex + 1))) (drop (nat (sepIndex + 1)) p))
         then (take (nat dotIndex) p, drop (nat dotIndex) p)
         else (p, ''''))"

text \<open>\<open>str.upper\<close> on ASCII text (the format codes are ASCII letters).\<close>

definition char_upper :: "char \<Rightarrow> char" where
  "char_upper c =
     (case map_of (zip ''abcdefghijklmnopqrstuvwxyz'' ''ABCDEFGHIJKLMNOPQRSTUVWXYZ'') c of
        None \<Rightarrow> c
      | Some u \<Rightarrow> u)"

definition upper :: "string \<Rightarrow> string" where
  "upper s = map char_upper s"

subsection \<open>\<open>Figure.savefig\<close>\<close>

definition fmts :: "(string \<times> string) list" where
  "fmts = [(''png'', ''g''), (''pdf'', ''f''), (''jpg'', ''j''), (''bmp'', ''b''),
           (''eps'', ''e''), (''tif'', ''t'')]"

text \<open>
  The call \<open>self.psconvert(prefix=prefix, fmt=fmt, crop=crop, portrait=portrait, **kwargs)\<close>
  raises TypeError, before \<open>psconvert\<close> runs, when \<open>kwargs\<close> repeats one of the four
  keywords written out.
\<close>

definition savefig ::
  "env \<Rightarrow> string \<Rightarrow> string \<Rightarrow> bool \<Rightarrow> bool \<Rightarrow> kwargs \<Rightarrow> Figure \<times> world
     \<Rightarrow> (error + unit) \<times> Figure \<times> world" where
  "savefig env fname orientation transparent crop kwargs st =
     (if orientation \<notin> set [''portrait'', ''landscape'']
      then (Inl (AssertionError (Invalid_orientation orientation)), st)
      else
        (let portrait = (orientation = ''portrait'');
             (prefix, ext) = splitext fname;
             ext = drop 1 ext
         in case map_of fmts ext of
              None \<Rightarrow> (Inl (AssertionError (Unknown_extension ext)), st)
            | Some fmt \<Rightarrow>
                if transparent \<and> ext \<noteq> ''png''
                then (Inl (AssertionError (Transparency_unavailable ext)), st)
                else
                  (let fmt = (if transparent then upper fmt else fmt);
                       keywords = [(''prefix'', Str prefix), (''fmt'', Str fmt),
                                   (''crop'', Bool crop), (''portrait'', Bool portrait)]
                   in if list_ex (\<lambda>k. map_of keywords k \<noteq> None) (map fst kwargs)
                      then (Inl TypeError, st)
                      else psconvert env (keywords @ kwargs) st)))"

subsection \<open>The preview methods\<close>

text \<open>\<open>os.path.join\<close> (posixpath) of two components.\<close>

definition path_join :: "string \<Rightarrow> string \<Rightarrow> string" where
  "path_join a b =
     (if take 1 b = ''/'' then b
      else if a = [] \<or> last a = CHR ''/'' then a @ b
      else a @ ''/'' @ b)"

text \<open>
  \<open>with TemporaryDirectory() as tmpdir\<close>: \<open>tempfile.mkdtemp\<close> draws candidates as
  \<open>_mkstemp_inner\<close> does, with the prefix \<open>tmp\<close> in the directory of \<open>gettempdir()\<close>, and
  makes the directory; leaving the block, normally or not, removes the directory and all
  that is under it.
\<close>

definition mkdtemp :: "env \<Rightarrow> world \<Rightarrow> (error + string) \<times> world" where
  "mkdtemp env w =
     (case mkstemp_inner (candidates env) (path_join (gettempdir env) ''tmp'') (files w)
             (TMP_MAX env) (drawn w) of
        None \<Rightarrow> (Inl FileExistsError, w\<lparr>drawn := drawn w + TMP_MAX env\<rparr>)
      | Some (tmpdir, i) \<Rightarrow> (Inr tmpdir, w\<lparr>files := insert tmpdir (files w), drawn := i\<rparr>))"

definition cleanup :: "string \<Rightarrow> world \<Rightarrow> world" where
  "cleanup tmpdir w =
     w\<lparr>files := Set.filter
                   (\<lambda>p. p \<noteq> tmpdir \<and> take (Suc (length tmpdir)) p \<noteq> tmpdir @ ''/'')
                   (files w)\<rparr>"

text \<open>\<open>open(fname, 'rb')\<close> and \<open>image.read()\<close>.\<close>

definition read_bytes :: "env \<Rightarrow> string \<Rightarrow> world \<Rightarrow> error + string" where
  "read_bytes env fname w =
     (if fname \<in> files w then Inr (file_bytes env w fname) else Inl FileNotFoundError)"

definition png_preview ::
  "env \<Rightarrow> int \<Rightarrow> bool \<Rightarrow> Figure \<times> world \<Rightarrow> (error + string) \<times> Figure \<times> world" where
  "png_preview env dpi anti_alias st =
     (case st of (self, w) \<Rightarrow>
        (let savefig_args = [(''dpi'', Integer dpi)];
             savefig_args = (if anti_alias
                             then AList.update ''Qt'' (Integer 4)
                                    (AList.update ''Qg'' (Integer 4) savefig_args)
                             else savefig_args)
         in case mkdtemp env w of
              (Inl e, w1) \<Rightarrow> (Inl e, (self, w1))
            | (Inr tmpdir, w1) \<Rightarrow>
                (let fname = path_join tmpdir (name self @ ''-preview.png'')
                 in case savefig env fname ''portrait'' False True savefig_args (self, w1) of
                      (Inl e, (self2, w2)) \<Rightarrow> (Inl e, (self2, cleanup tmpdir w2))
                    | (Inr u, (self2, w2)) \<Rightarrow>
                        (case read_bytes env fname w2 of
                           Inl e \<Rightarrow> (Inl e, (self2, cleanup tmpdir w2))
                         | Inr png \<Rightarrow> (Inr png, (self2, cleanup tmpdir w2))))))"

text \<open>\<open>Image(data=png, width=width)\<close>; calling \<open>Image\<close> when it is None raises
  TypeError.\<close>

datatype image = Image string int

definition Figure_show ::
  "env \<Rightarrow> int \<Rightarrow> int \<Rightarrow> Figure \<times> world \<Rightarrow> (error + image) \<times> Figure \<times> world" where
  "Figure_show env dpi width st =
     (case png_preview env dpi True st of
        (Inl e, st1) \<Rightarrow> (Inl e, st1)
      | (Inr png, st1) \<Rightarrow>
          if IPython_installed env then (Inr (Image png width), st1) else (Inl TypeError, st1))"

definition repr_png :: "env \<Rightarrow> Figure \<times> world \<Rightarrow> (error + string) \<times> Figure \<times> world" where
  "repr_png env st = png_preview env 70 True st"

section \<open>A concrete library and world\<close>

text \<open>
  A library whose calls all succeed, for evaluating the definitions: it hands out the number
  of native calls made so far plus one as the session handle, every module returns status 0,
  and \<open>psconvert\<close> writes the file \<open>out\<close>. The helpers behave as their names say:
  \<open>use_alias\<close> renames a long keyword to its one-letter flag, \<open>kwargs_to_strings\<close> turns
  True into the empty string and drops False, \<open>build_arg_string\<close> writes \<open>-\<close>, the key and a
  string value for every entry. The random name sequence repeats one candidate.
\<close>

definition example_build_arg_string :: "kwargs \<Rightarrow> string" where
  "example_build_arg_string kw =
     concat (map (\<lambda>(k, v). '' -'' @ k @ (case v of Str t \<Rightarrow> t | Bool b \<Rightarrow> [] | Integer i \<Rightarrow> [])) kw)"

definition example_use_alias :: "(string \<times> string) list \<Rightarrow> kwargs \<Rightarrow> kwargs" where
  "example_use_alias al kw =
     map (\<lambda>(k, v). ((case map_of (map (\<lambda>(short, long). (long, short)) al) k of
                         None \<Rightarrow> k
                       | Some short \<Rightarrow> short), v)) kw"

definition example_kwargs_to_strings :: "kwargs \<Rightarrow> kwargs" where
  "example_kwargs_to_strings kw =
     map (\<lambda>(k, v). (k, if v = Bool True then Str [] else v))
       (filter (\<lambda>(k, v). v \<noteq> Bool False) kw)"

definition example_env :: env where
  "example_env =
     \<lparr>GMT_SESSION_NAME = ''gmt-python-session'', GMT_PAD_DEFAULT = 2, GMT_SESSION_EXTERNAL = 2,
      GMT_MODULE_CMD = 0,
      GMT_Create_Session = (\<lambda>w n p m f. Some (Suc (length (trace w)))),
      GMT_Call_Module =
        (\<lambda>w s md mo a. (Some 0, if md = ''psconvert'' then insert ''out'' (files w) else files w)),
      build_arg_string = example_build_arg_string,
      use_alias = example_use_alias,
      kwargs_to_strings = example_kwargs_to_strings,
      candidates = (\<lambda>i. ''qk3x_7ab''),
      TMP_MAX = 10000,
      gettempdir = ''/tmp'',
      file_bytes = (\<lambda>w p. ''PNG''),
      IPython_installed = True\<rparr>"

text \<open>The same library, except that \<open>psconvert\<close> writes the preview of the example figure
  where \<open>_png_preview\<close> asks for it.\<close>

definition preview_env :: env where
  "preview_env =
     example_env\<lparr>GMT_Call_Module :=
       (\<lambda>w s md mo a.
          (Some 0,
           if md = ''psconvert''
           then insert ''/tmp/tmpqk3x_7ab/gmt-python-qk3x_7ab-preview.png'' (files w)
           else files w))\<rparr>"

text \<open>The same library, except that every module call fails with status 1.\<close>

definition failing_env :: env where
  "failing_env = example_env\<lparr>GMT_Call_Module := (\<lambda>w s md mo a. (Some 1, files w))\<rparr>"

definition example_world :: world where
  "example_world = \<lparr>trace = [], files = {}, drawn = 0\<rparr>"

definition example_figure :: Figure where
  "example_figure = \<lparr>name = ''gmt-python-qk3x_7ab''\<rparr>"

section \<open>Session acquisition and module dispatch\<close>

lemma call_module_trace:
  "trace (snd (call_module env session module args w)) =
     trace w @ [Call_Module session module (GMT_MODULE_CMD env) args]"
  by (simp add: call_module_def Let_def split: prod.splits option.splits)

lemma create_session_trace:
  "trace (snd (create_session env w)) =
     trace w @ [Create_Session (GMT_SESSION_NAME env) (GMT_PAD_DEFAULT env)
       (GMT_SESSION_EXTERNAL env) None
       (GMT_Create_Session env w (GMT_SESSION_NAME env) (GMT_PAD_DEFAULT env)
          (GMT_SESSION_EXTERNAL env) None)]"
  by (simp add: create_session_def Let_def split: option.splits)

lemma create_session_result:
  "fst (create_session env w) =
     (case GMT_Create_Session env w (GMT_SESSION_NAME env) (GMT_PAD_DEFAULT env)
             (GMT_SESSION_EXTERNAL env) None of
        None \<Rightarrow> Inl (AssertionError Failed_creating_pointer)
      | Some h \<Rightarrow> Inr h)"
  by (simp add: create_session_def Let_def split: option.splits)

lemma create_session_files:
  "files (snd (create_session env w)) = files w \<and> drawn (snd (create_session env w)) = drawn w"
  by (simp add: create_session_def Let_def split: option.splits)

text \<open>
  C1. \<open>call_module\<close> invokes GMT_Call_Module once, with the session, the module name, the
  mode GMT_MODULE_CMD and the argument string. It returns normally if and only if the native
  status is the integer 0; a nonzero status and a missing one both raise an AssertionError,
  so no failing status is passed over.
\<close>

theorem call_module_returns_iff_status_zero:
  "(fst (call_module env session module args w) = Inr ()) =
     (fst (GMT_Call_Module env w session module (GMT_MODULE_CMD env) args) = Some 0)
   \<and> fst (call_module env session module args w) =
       (case fst (GMT_Call_Module env w session module (GMT_MODULE_CMD env) args) of
          None \<Rightarrow> Inl (AssertionError Failed_returning_None)
        | Some st \<Rightarrow> if st = 0 then Inr () else Inl (AssertionError (Failed_with_status st)))
   \<and> trace (snd (call_module env session module args w)) =
       trace w @ [Call_Module session module (GMT_MODULE_CMD env) args]"
proof -
  obtain status out where
    native: "GMT_Call_Module env w session module (GMT_MODULE_CMD env) args = (status, out)"
    by (cases "GMT_Call_Module env w session module (GMT_MODULE_CMD env) args")
  show ?thesis
  proof (cases status)
    case None
    with native show ?thesis
      by (simp add: call_module_def Let_def)
  next
    case (Some st)
    with native show ?thesis
      by (cases "st = 0") (simp_all add: call_module_def Let_def)
  qed
qed

text \<open>
  C4. \<open>create_session\<close> invokes GMT_Create_Session once, with the session name, the padding
  mode, the external-session mode flag and a null print callback. A null handle raises the
  AssertionError of the function's assert; any other handle is returned as the library gave
  it.
\<close>

theorem create_session_returns_native_handle:
  "trace (snd (create_session env w)) =
     trace w @ [Create_Session (GMT_SESSION_NAME env) (GMT_PAD_DEFAULT env)
       (GMT_SESSION_EXTERNAL env) None
       (GMT_Create_Session env w (GMT_SESSION_NAME env) (GMT_PAD_DEFAULT env)
          (GMT_SESSION_EXTERNAL env) None)]
   \<and> fst (create_session env w) =
       (case GMT_Create_Session env w (GMT_SESSION_NAME env) (GMT_PAD_DEFAULT env)
               (GMT_SESSION_EXTERNAL env) None of
          None \<Rightarrow> Inl (AssertionError Failed_creating_pointer)
        | Some h \<Rightarrow> Inr h)"
  using create_session_trace [of env w] create_session_result [of env w] by simp

section \<open>The lifetime of the scoped session\<close>

lemma scoped_append: "scoped s es \<Longrightarrow> scoped None fs \<Longrightarrow> scoped s (es @ fs)"
  by (induction s es rule: scoped.induct) auto

lemma scoped_calls:
  "scoped (Some h) (map (\<lambda>(m, a). Call_Module h m mo a) cs @ [Destroy_Session h])"
  by (induction cs) auto

lemma call_modules_trace:
  "\<exists>k. trace (snd (call_modules env calls h w)) =
         trace w @ map (\<lambda>(m, a). Call_Module h m (GMT_MODULE_CMD env) a) (take k calls)"
proof (induction calls arbitrary: w)
  case Nil
  then show ?case by simp
next
  case (Cons c calls)
  obtain m a where c: "c = (m, a)" by (cases c)
  obtain r w1 where step: "call_module env h m a w = (r, w1)"
    by (cases "call_module env h m a w")
  have t1: "trace w1 = trace w @ [Call_Module h m (GMT_MODULE_CMD env) a]"
    using call_module_trace [of env h m a w] step by simp
  show ?case
  proof (cases r)
    case (Inl e)
    have "trace (snd (call_modules env (c # calls) h w)) =
            trace w @ map (\<lambda>(m, a). Call_Module h m (GMT_MODULE_CMD env) a) (take 1 (c # calls))"
      using c step Inl t1 by simp
    then show ?thesis by blast
  next
    case (Inr u)
    from Cons.IH [of w1] obtain k where
      k: "trace (snd (call_modules env calls h w1)) =
            trace w1 @ map (\<lambda>(m, a). Call_Module h m (GMT_MODULE_CMD env) a) (take k calls)"
      by blast
    have "trace (snd (call_modules env (c # calls) h w)) =
            trace w @ map (\<lambda>(m, a). Call_Module h m (GMT_MODULE_CMD env) a) (take (Suc k) (c # calls))"
      using c step Inr t1 k by simp
    then show ?thesis by blast
  qed
qed

lemma with_APISession_scoped:
  assumes body: "\<And>h w1. \<exists>es. trace (snd (body h w1)) = trace w1 @ es
                    \<and> scoped (Some h) (es @ [Destroy_Session h])"
  shows "\<exists>es. trace (snd (with_APISession env body w)) = trace w @ es \<and> scoped None es"
proof -
  let ?r = "GMT_Create_Session env w (GMT_SESSION_NAME env) (GMT_PAD_DEFAULT env)
              (GMT_SESSION_EXTERNAL env) None"
  let ?c = "Create_Session (GMT_SESSION_NAME env) (GMT_PAD_DEFAULT env)
              (GMT_SESSION_EXTERNAL env) None ?r"
  obtain r1 w1 where cs: "create_session env w = (r1, w1)"
    by (cases "create_session env w")
  have t1: "trace w1 = trace w @ [?c]"
    using create_session_trace [of env w] cs by simp
  have r1: "r1 = (case ?r of None \<Rightarrow> Inl (AssertionError Failed_creating_pointer) | Some h \<Rightarrow> Inr h)"
    using create_session_result [of env w] cs by simp
  show ?thesis
  proof (cases ?r)
    case None
    then have "trace (snd (with_APISession env body w)) = trace w @ [?c]"
      using cs t1 r1 by (simp add: with_APISession_def)
    moreover have "scoped None [?c]" using None by simp
    ultimately show ?thesis by blast
  next
    case (Some h)
    obtain r2 w2 where b: "body h w1 = (r2, w2)"
      by (cases "body h w1")
    from body [of h w1] b obtain es where
      es: "trace w2 = trace w1 @ es" "scoped (Some h) (es @ [Destroy_Session h])"
      by auto
    have "trace (snd (with_APISession env body w)) = trace w @ (?c # es @ [Destroy_Session h])"
      using cs t1 r1 Some es(1) b
      by (simp add: with_APISession_def destroy_session_def)
    moreover have "scoped None (?c # es @ [Destroy_Session h])"
      using Some es(2) by simp
    ultimately show ?thesis by blast
  qed
qed

lemma call_modules_scoped:
  "\<exists>es. trace (snd (call_modules env calls h w)) = trace w @ es
        \<and> scoped (Some h) (es @ [Destroy_Session h])"
  using call_modules_trace [of env calls h w] scoped_calls by metis

lemma call_module_scoped:
  "\<exists>es. trace (snd (call_module env h m a w)) = trace w @ es
        \<and> scoped (Some h) (es @ [Destroy_Session h])"
  using call_module_trace [of env h m a w] by simp

lemma figure_scoped:
  "\<exists>es. trace (snd (figure env nm w)) = trace w @ es \<and> scoped None es"
  unfolding figure_def Let_def
  by (rule with_APISession_scoped) (rule call_module_scoped)

lemma preprocess_self: "fst (snd (preprocess env kwargs (self, w))) = self"
  by (simp add: preprocess_def split: prod.splits sum.splits)

lemma psconvert_body_scoped:
  "\<exists>es. trace (snd (snd (psconvert_body env kwargs (self, w)))) = trace w @ es \<and> scoped None es"
proof -
  obtain r1 w1 where f: "figure env (name self) w = (r1, w1)"
    by (cases "figure env (name self) w")
  from figure_scoped [of env "name self" w] f obtain es1 where
    es1: "trace w1 = trace w @ es1" "scoped None es1" by auto
  show ?thesis
  proof (cases r1)
    case (Inl e)
    then have "snd (snd (psconvert_body env kwargs (self, w))) = w1"
      using f by (simp add: psconvert_body_def preprocess_def)
    then show ?thesis using es1 by auto
  next
    case (Inr u)
    define kw where "kw = (let kwargs = (if map_of kwargs ''A'' = None
                         then AList.update ''A'' (Str '''') kwargs else kwargs);
               kwargs = (if map_of kwargs ''P'' = None
                         then AList.update ''P'' (Str '''') kwargs else kwargs) in kwargs)"
    let ?body = "\<lambda>session. call_module env session ''psconvert'' (build_arg_string env kw)"
    have eq: "snd (snd (psconvert_body env kwargs (self, w))) = snd (with_APISession env ?body w1)"
      using f Inr by (simp add: psconvert_body_def preprocess_def kw_def Let_def split: prod.splits)
    from with_APISession_scoped [of ?body env w1, OF call_module_scoped]
    obtain es2 where es2: "trace (snd (with_APISession env ?body w1)) = trace w1 @ es2" "scoped None es2"
      by blast
    have "trace (snd (snd (psconvert_body env kwargs (self, w)))) = trace w @ (es1 @ es2)"
      using eq es1(1) es2(1) by simp
    moreover have "scoped None (es1 @ es2)"
      using es1(2) es2(2) by (rule scoped_append)
    ultimately show ?thesis by blast
  qed
qed

text \<open>
  C5. Every block of module calls run under the scoped session, the block of \<open>figure\<close>
  and the two blocks of \<open>Figure.psconvert\<close> among them, extends the trace of native calls
  by events that the automaton \<open>scoped\<close> accepts: the session is created before the first
  module call, every module call uses the open session, and the session is released once,
  whether the block ends normally or with an exception (the statement holds for every
  result). A creation that fails opens no session and enters no block.
\<close>

theorem scoped_session_lifetime:
  "(\<exists>es. trace (snd (with_APISession env (call_modules env calls) w)) = trace w @ es
          \<and> scoped None es)
   \<and> (\<exists>es. trace (snd (figure env nm w)) = trace w @ es \<and> scoped None es)
   \<and> (\<exists>es. trace (snd (snd (psconvert env kwargs (self, w)))) = trace w @ es
          \<and> scoped None es)"
proof (intro conjI)
  show "\<exists>es. trace (snd (with_APISession env (call_modules env calls) w)) = trace w @ es
          \<and> scoped None es"
    by (rule with_APISession_scoped) (rule call_modules_scoped)
  show "\<exists>es. trace (snd (figure env nm w)) = trace w @ es \<and> scoped None es"
    by (rule figure_scoped)
  show "\<exists>es. trace (snd (snd (psconvert env kwargs (self, w)))) = trace w @ es
          \<and> scoped None es"
    unfolding psconvert_def by (rule psconvert_body_scoped)
qed

lemma with_APISession_empty:
  "with_APISession env (call_modules env []) w =
     (case GMT_Create_Session env w (GMT_SESSION_NAME env) (GMT_PAD_DEFAULT env)
             (GMT_SESSION_EXTERNAL env) None of
        None \<Rightarrow> (Inl (AssertionError Failed_creating_pointer),
                 w\<lparr>trace := trace w @ [Create_Session (GMT_SESSION_NAME env) (GMT_PAD_DEFAULT env)
                    (GMT_SESSION_EXTERNAL env) None None]\<rparr>)
      | Some h \<Rightarrow> (Inr (),
                 w\<lparr>trace := trace w @ [Create_Session (GMT_SESSION_NAME env) (GMT_PAD_DEFAULT env)
                    (GMT_SESSION_EXTERNAL env) None (Some h), Destroy_Session h]\<rparr>))"
  by (simp add: with_APISession_def create_session_def destroy_session_def Let_def
           split: option.splits)

text \<open>
  C8. An empty scope, a session created and released with no plotting command between, adds
  no module call to the trace of native calls and leaves the files as they were. The
  statement is given for the scoped session with an empty block and for \<open>create_session\<close>
  followed at once by the release. Files are written by module calls only: that session
  creation and release write none is how the spec describes them, not something the two
  source files decide.
\<close>

theorem empty_scope_no_module_calls:
  "filter is_module_call
     (drop (length (trace w)) (trace (snd (with_APISession env (call_modules env []) w)))) = []
   \<and> take (length (trace w)) (trace (snd (with_APISession env (call_modules env []) w))) = trace w
   \<and> files (snd (with_APISession env (call_modules env []) w)) = files w
   \<and> filter is_module_call
       (drop (length (trace w))
          (trace (case create_session env w of
                    (Inl e, w1) \<Rightarrow> w1
                  | (Inr session, w1) \<Rightarrow> destroy_session session w1))) = []
   \<and> files (case create_session env w of
               (Inl e, w1) \<Rightarrow> w1
             | (Inr session, w1) \<Rightarrow> destroy_session session w1) = files w"
  by (simp add: with_APISession_empty create_session_def destroy_session_def Let_def
           split: option.splits)

section \<open>Figure names\<close>

lemma mkstemp_inner_pos:
  "0 < n \<Longrightarrow> mkstemp_inner cand pre dir n i =
     (let file = pre @ cand i
      in if file \<in> dir then mkstemp_inner cand pre dir (n - 1) (Suc i) else Some (file, Suc i))"
  by (cases n) (simp_all add: Let_def)

lemma unique_name_fresh:
  assumes "0 < TMP_MAX env" and "''gmt-python-'' @ candidates env (drawn w) \<notin> files w"
  shows "unique_name env w =
           (Inr (''gmt-python-'' @ candidates env (drawn w)), w\<lparr>drawn := Suc (drawn w)\<rparr>)"
  using assms by (simp add: unique_name_def mkstemp_inner_pos Let_def)

text \<open>What the temporary file does guarantee: the name returned is not a file of the
  directory at the time of the call, and the directory is left as it was.\<close>

lemma mkstemp_inner_not_in_dir:
  "mkstemp_inner cand pre dir n i = Some (file, j) \<Longrightarrow> file \<notin> dir"
  by (induction n arbitrary: i) (auto simp add: Let_def split: if_splits)

lemma unique_name_not_a_file:
  "fst (unique_name env w) = Inr nm \<Longrightarrow> nm \<notin> files w"
  by (auto simp add: unique_name_def Let_def split: option.splits dest: mkstemp_inner_not_in_dir)

lemma unique_name_files: "files (snd (unique_name env w)) = files w"
  by (auto simp add: unique_name_def Let_def split: option.splits dest: mkstemp_inner_not_in_dir)

text \<open>
  C6. \<open>_unique_name\<close> deletes its temporary file before it returns, so the name is only
  known to differ from the files of the directory at the moment of the call. When the random
  sequence of tempfile yields the same candidate twice, two Figure objects constructed one
  after the other in one process carry the same name: here both are
  \<open>gmt-python-qk3x_7ab\<close>.
\<close>

theorem figure_names_can_repeat:
  "fst (Figure_init example_env example_world) = Inr \<lparr>name = ''gmt-python-qk3x_7ab''\<rparr>
   \<and> fst (Figure_init example_env (snd (Figure_init example_env example_world))) =
       Inr \<lparr>name = ''gmt-python-qk3x_7ab''\<rparr>"
  by (simp add: Figure_init_def unique_name_def mkstemp_inner_pos example_env_def
        example_world_def)

section \<open>Saving a figure\<close>

lemma fmts_lookup:
  "map_of fmts ext =
     (if ext = ''png'' then Some ''g'' else if ext = ''pdf'' then Some ''f''
      else if ext = ''jpg'' then Some ''j'' else if ext = ''bmp'' then Some ''b''
      else if ext = ''eps'' then Some ''e'' else if ext = ''tif'' then Some ''t'' else None)"
  by (simp add: fmts_def)

lemma upper_g: "upper ''g'' = ''G''"
  by (simp add: upper_def char_upper_def)

lemma keyword_clash:
  "list_ex (\<lambda>k. map_of [(''prefix'', a), (''fmt'', b), (''crop'', c), (''portrait'', d)] k \<noteq> None)
     (map fst kwargs) =
   (fst ` set kwargs \<inter> {''prefix'', ''fmt'', ''crop'', ''portrait''} \<noteq> {})"
  by (induction kwargs) auto

lemma savefig_unfold:
  "savefig env fname orientation transparent crop kwargs st =
     (if orientation \<noteq> ''portrait'' \<and> orientation \<noteq> ''landscape''
      then (Inl (AssertionError (Invalid_orientation orientation)), st)
      else case map_of fmts (drop 1 (snd (splitext fname))) of
             None \<Rightarrow> (Inl (AssertionError (Unknown_extension (drop 1 (snd (splitext fname))))), st)
           | Some fmt \<Rightarrow>
               if transparent \<and> drop 1 (snd (splitext fname)) \<noteq> ''png''
               then (Inl (AssertionError (Transparency_unavailable (drop 1 (snd (splitext fname))))), st)
               else if fst ` set kwargs \<inter> {''prefix'', ''fmt'', ''crop'', ''portrait''} \<noteq> {}
               then (Inl TypeError, st)
               else psconvert env
                      ([(''prefix'', Str (fst (splitext fname))),
                        (''fmt'', Str (if transparent then upper fmt else fmt)),
                        (''crop'', Bool crop),
                        (''portrait'', Bool (orientation = ''portrait''))] @ kwargs) st)"
proof -
  obtain prefix e where sp: "splitext fname = (prefix, e)"
    by (cases "splitext fname")
  have clash: "\<And>a b c d.
    list_ex (\<lambda>k. map_of [(''prefix'', a), (''fmt'', b), (''crop'', c), (''portrait'', d)] k \<noteq> None)
      (map fst kwargs) =
    (fst ` set kwargs \<inter> {''prefix'', ''fmt'', ''crop'', ''portrait''} \<noteq> {})"
    by (rule keyword_clash)
  show ?thesis
    unfolding savefig_def Let_def sp prod.case clash
    by (auto split: option.splits)
qed

text \<open>
  C2. For a file name whose extension is one of png, pdf, jpg, bmp, eps and tif (with a valid
  orientation and no keyword of the call repeated in \<open>kwargs\<close>), \<open>savefig\<close> is the call
  of \<open>psconvert\<close> whose keyword \<open>fmt\<close> is the documented one-letter code of the extension:
  g, f, j, b, e, t. The only upper-case code it ever passes is G, for png with
  \<open>transparent\<close> set; with \<open>transparent\<close> set and any other extension it raises and
  \<open>psconvert\<close> is not called.
\<close>

theorem savefig_format_code:
  assumes "orientation = ''portrait'' \<or> orientation = ''landscape''"
    and "drop 1 (snd (splitext fname)) = ext"
    and "ext \<in> {''png'', ''pdf'', ''jpg'', ''bmp'', ''eps'', ''tif''}"
    and "fst ` set kwargs \<inter> {''prefix'', ''fmt'', ''crop'', ''portrait''} = {}"
  shows "savefig env fname orientation transparent crop kwargs st =
     (if transparent \<and> ext \<noteq> ''png''
      then (Inl (AssertionError (Transparency_unavailable ext)), st)
      else psconvert env
             ([(''prefix'', Str (fst (splitext fname))),
               (''fmt'', Str (if ext = ''png'' then (if transparent then ''G'' else ''g'')
                              else if ext = ''pdf'' then ''f''
                              else if ext = ''jpg'' then ''j''
                              else if ext = ''bmp'' then ''b''
                              else if ext = ''eps'' then ''e''
                              else ''t'')),
               (''crop'', Bool crop),
               (''portrait'', Bool (orientation = ''portrait''))] @ kwargs) st)"
proof -
  from assms(3) consider "ext = ''png''" | "ext = ''pdf''" | "ext = ''jpg''"
    | "ext = ''bmp''" | "ext = ''eps''" | "ext = ''tif''" by auto
  then show ?thesis
    using assms(1,2,4)
    by cases (auto simp add: savefig_unfold fmts_lookup upper_g)
qed

text \<open>
  C3. With an orientation other than portrait and landscape, or an extension outside png, pdf,
  jpg, bmp, eps and tif, \<open>savefig\<close> raises an AssertionError and leaves the object and the
  world as they were: the trace of native calls has not grown, so no native call was made.
\<close>

theorem savefig_rejects_before_native_call:
  assumes "orientation \<notin> {''portrait'', ''landscape''}
           \<or> drop 1 (snd (splitext fname)) \<notin> {''png'', ''pdf'', ''jpg'', ''bmp'', ''eps'', ''tif''}"
  shows "\<exists>a. savefig env fname orientation transparent crop kwargs st =
              (Inl (AssertionError a), st)"
  using assms by (auto simp add: savefig_unfold fmts_lookup)

text \<open>
  C7. With \<open>transparent\<close> set and one of the supported extensions other than png,
  \<open>savefig\<close> raises an AssertionError with the object and the world unchanged: neither
  \<open>psconvert\<close> nor a native call has run and nothing was written. With the extension png
  (a valid orientation, no keyword repeated) it goes on to \<open>psconvert\<close> with the format
  code G.
\<close>

theorem savefig_transparent_only_png:
  assumes "transparent" and "drop 1 (snd (splitext fname)) = ext"
  shows "(ext \<in> {''pdf'', ''jpg'', ''bmp'', ''eps'', ''tif''} \<longrightarrow>
            savefig env fname orientation transparent crop kwargs st =
              (Inl (AssertionError
                 (if orientation = ''portrait'' \<or> orientation = ''landscape''
                  then Transparency_unavailable ext else Invalid_orientation orientation)), st))
       \<and> (ext = ''png'' \<and> (orientation = ''portrait'' \<or> orientation = ''landscape'')
            \<and> fst ` set kwargs \<inter> {''prefix'', ''fmt'', ''crop'', ''portrait''} = {} \<longrightarrow>
            savefig env fname orientation transparent crop kwargs st =
              psconvert env
                ([(''prefix'', Str (fst (splitext fname))), (''fmt'', Str ''G''),
                  (''crop'', Bool crop),
                  (''portrait'', Bool (orientation = ''portrait''))] @ kwargs) st)"
  using assms by (auto simp add: savefig_unfold fmts_lookup upper_g)


theorem savefig_format_code_witness:
  "savefig example_env ''maps/map.pdf'' ''landscape'' False True [(''dpi'', Integer 300)]
     (example_figure, example_world) =
   psconvert example_env
     [(''prefix'', Str ''maps/map''), (''fmt'', Str ''f''), (''crop'', Bool True),
      (''portrait'', Bool False), (''dpi'', Integer 300)] (example_figure, example_world)
   \<and> savefig example_env ''map.png'' ''portrait'' True True [] (example_figure, example_world) =
   psconvert example_env
     [(''prefix'', Str ''map''), (''fmt'', Str ''G''), (''crop'', Bool True),
      (''portrait'', Bool True)] (example_figure, example_world)"
  using savefig_format_code [where fname = "''maps/map.pdf''" and ext = "''pdf''"
      and orientation = "''landscape''" and kwargs = "[(''dpi'', Integer 300)]"
      and transparent = False and crop = True and env = example_env
      and st = "(example_figure, example_world)"]
    savefig_format_code [where fname = "''map.png''" and ext = "''png''"
      and orientation = "''portrait''" and kwargs = "[]"
      and transparent = True and crop = True and env = example_env
      and st = "(example_figure, example_world)"]
  by (simp add: splitext_def Let_def)

theorem savefig_rejects_before_native_call_witness:
  "savefig example_env ''map.png'' ''sideways'' False True [] (example_figure, example_world) =
     (Inl (AssertionError (Invalid_orientation ''sideways'')), (example_figure, example_world))
   \<and> savefig example_env ''map.svg'' ''portrait'' False True [] (example_figure, example_world) =
     (Inl (AssertionError (Unknown_extension ''svg'')), (example_figure, example_world))"
  using savefig_rejects_before_native_call [where fname = "''map.png''"
      and orientation = "''sideways''" and kwargs = "[]"
      and transparent = False and crop = True and env = example_env
      and st = "(example_figure, example_world)"]
    savefig_rejects_before_native_call [where fname = "''map.svg''"
      and orientation = "''portrait''" and kwargs = "[]"
      and transparent = False and crop = True and env = example_env
      and st = "(example_figure, example_world)"]
  by (simp add: savefig_unfold fmts_lookup splitext_def Let_def)

theorem savefig_transparent_only_png_witness:
  "savefig example_env ''map.pdf'' ''portrait'' True True [] (example_figure, example_world) =
     (Inl (AssertionError (Transparency_unavailable ''pdf'')), (example_figure, example_world))
   \<and> savefig example_env ''map.png'' ''portrait'' True True [] (example_figure, example_world) =
      psconvert example_env
        [(''prefix'', Str ''map''), (''fmt'', Str ''G''), (''crop'', Bool True),
         (''portrait'', Bool True)] (example_figure, example_world)"
  using savefig_transparent_only_png [where fname = "''map.pdf''" and ext = "''pdf''"
      and orientation = "''portrait''" and kwargs = "[]"
      and transparent = True and crop = True and env = example_env
      and st = "(example_figure, example_world)"]
    savefig_transparent_only_png [where fname = "''map.png''" and ext = "''png''"
      and orientation = "''portrait''" and kwargs = "[]"
      and transparent = True and crop = True and env = example_env
      and st = "(example_figure, example_world)"]
  by (simp add: splitext_def Let_def)

section \<open>Conversion and the preliminary figure call\<close>

lemma with_APISession_call_module_trace:
  "trace (snd (with_APISession env (\<lambda>session. call_module env session m a) w)) =
     trace w @
     (case GMT_Create_Session env w (GMT_SESSION_NAME env) (GMT_PAD_DEFAULT env)
             (GMT_SESSION_EXTERNAL env) None of
        None \<Rightarrow> [Create_Session (GMT_SESSION_NAME env) (GMT_PAD_DEFAULT env)
                   (GMT_SESSION_EXTERNAL env) None None]
      | Some h \<Rightarrow> [Create_Session (GMT_SESSION_NAME env) (GMT_PAD_DEFAULT env)
                     (GMT_SESSION_EXTERNAL env) None (Some h),
                   Call_Module h m (GMT_MODULE_CMD env) a,
                   Destroy_Session h])"
proof (cases "GMT_Create_Session env w (GMT_SESSION_NAME env) (GMT_PAD_DEFAULT env)
                (GMT_SESSION_EXTERNAL env) None")
  case None
  then show ?thesis
    by (simp add: with_APISession_def create_session_def Let_def)
next
  case (Some h)
  let ?w1 = "w\<lparr>trace := trace w @ [Create_Session (GMT_SESSION_NAME env) (GMT_PAD_DEFAULT env)
                    (GMT_SESSION_EXTERNAL env) None (Some h)]\<rparr>"
  obtain r w2 where cm: "call_module env h m a ?w1 = (r, w2)"
    by (cases "call_module env h m a ?w1")
  have "trace w2 = trace ?w1 @ [Call_Module h m (GMT_MODULE_CMD env) a]"
    using call_module_trace [of env h m a ?w1] cm by simp
  then show ?thesis
    using Some cm
    by (simp add: with_APISession_def create_session_def destroy_session_def Let_def)
qed

lemma figure_trace:
  "trace (snd (figure env nm w)) =
     trace w @
     (case GMT_Create_Session env w (GMT_SESSION_NAME env) (GMT_PAD_DEFAULT env)
             (GMT_SESSION_EXTERNAL env) None of
        None \<Rightarrow> [Create_Session (GMT_SESSION_NAME env) (GMT_PAD_DEFAULT env)
                   (GMT_SESSION_EXTERNAL env) None None]
      | Some h \<Rightarrow> [Create_Session (GMT_SESSION_NAME env) (GMT_PAD_DEFAULT env)
                     (GMT_SESSION_EXTERNAL env) None (Some h),
                   Call_Module h ''figure'' (GMT_MODULE_CMD env) (nm @ '' -''),
                   Destroy_Session h])"
  using with_APISession_call_module_trace [of env "''figure''" "nm @ '' -''" w]
  by (simp add: figure_def)

lemma psconvert_body_unfold:
  "psconvert_body env kw (self, w) =
     (case figure env (name self) w of
        (Inl e, w1) \<Rightarrow> (Inl e, (self, w1))
      | (Inr u, w1) \<Rightarrow>
          (case with_APISession env
                  (\<lambda>session. call_module env session ''psconvert''
                     (build_arg_string env
                        (let kwA = (if map_of kw ''A'' = None
                                    then AList.update ''A'' (Str '''') kw else kw)
                         in if map_of kwA ''P'' = None
                            then AList.update ''P'' (Str '''') kwA else kwA))) w1 of
             (r, w2) \<Rightarrow> (r, (self, w2))))"
proof -
  obtain r1 w1 where f: "figure env (name self) w = (r1, w1)"
    by (cases "figure env (name self) w")
  show ?thesis
  proof (cases r1)
    case (Inl e)
    then show ?thesis using f by (simp add: psconvert_body_def preprocess_def)
  next
    case (Inr u)
    then show ?thesis using f
      unfolding psconvert_body_def preprocess_def Let_def by simp
  qed
qed

lemma defaults_lookup:
  fixes kw :: kwargs
  defines "kwA \<equiv> (if map_of kw ''A'' = None then AList.update ''A'' (Str '''') kw else kw)"
  defines "kw' \<equiv> (if map_of kwA ''P'' = None then AList.update ''P'' (Str '''') kwA else kwA)"
  shows "map_of kw' ''A'' = Some (case map_of kw ''A'' of None \<Rightarrow> Str '''' | Some v \<Rightarrow> v)"
    and "map_of kw' ''P'' = Some (case map_of kw ''P'' of None \<Rightarrow> Str '''' | Some v \<Rightarrow> v)"
    and "k \<noteq> ''A'' \<Longrightarrow> k \<noteq> ''P'' \<Longrightarrow> map_of kw' k = map_of kw k"
  unfolding kw'_def kwA_def
  by (auto simp add: update_conv' split: option.splits)

lemma psconvert_body_trace:
  "trace (snd (snd (psconvert_body env kw (self, w)))) =
     (case figure env (name self) w of
        (Inl e, w1) \<Rightarrow> trace w1
      | (Inr u, w1) \<Rightarrow>
          trace w1 @
          (case GMT_Create_Session env w1 (GMT_SESSION_NAME env) (GMT_PAD_DEFAULT env)
                  (GMT_SESSION_EXTERNAL env) None of
             None \<Rightarrow> [Create_Session (GMT_SESSION_NAME env) (GMT_PAD_DEFAULT env)
                        (GMT_SESSION_EXTERNAL env) None None]
           | Some h \<Rightarrow>
               [Create_Session (GMT_SESSION_NAME env) (GMT_PAD_DEFAULT env)
                  (GMT_SESSION_EXTERNAL env) None (Some h),
                Call_Module h ''psconvert'' (GMT_MODULE_CMD env)
                  (build_arg_string env
                     (let kwA = (if map_of kw ''A'' = None
                                 then AList.update ''A'' (Str '''') kw else kw)
                      in if map_of kwA ''P'' = None
                         then AList.update ''P'' (Str '''') kwA else kwA)),
                Destroy_Session h]))"
proof -
  obtain r1 w1 where f: "figure env (name self) w = (r1, w1)"
    by (cases "figure env (name self) w")
  show ?thesis
  proof (cases r1)
    case (Inl e)
    then show ?thesis using f by (simp add: psconvert_body_unfold)
  next
    case (Inr u)
    let ?args = "build_arg_string env
                     (let kwA = (if map_of kw ''A'' = None
                                 then AList.update ''A'' (Str '''') kw else kw)
                      in if map_of kwA ''P'' = None
                         then AList.update ''P'' (Str '''') kwA else kwA)"
    have "snd (snd (psconvert_body env kw (self, w))) =
            snd (with_APISession env (\<lambda>session. call_module env session ''psconvert'' ?args) w1)"
      using f Inr by (simp add: psconvert_body_unfold split: prod.splits)
    then show ?thesis
      using f Inr with_APISession_call_module_trace [of env "''psconvert''" ?args w1]
      by simp
  qed
qed

text \<open>
  C9. The argument string that \<open>Figure.psconvert\<close> passes to the native psconvert module
  is \<open>build_arg_string\<close> of a dictionary that always holds the crop flag A and the portrait
  flag P: a flag that the dictionary reaching the method's body lacks is entered with the
  empty string (the flag without a value, that is, enabled), a flag it has keeps its value,
  and every other key is as it was. The dictionary reaching the body is the caller's after
  the two decorators. No other psconvert module call is made, and when the preliminary
  figure call succeeds and a session is handed out, the psconvert call is made with that
  string.
\<close>

theorem psconvert_passes_crop_and_portrait:
  assumes "kw = kwargs_to_strings env (use_alias env psconvert_aliases kwargs)"
  shows "\<exists>kw'.
      map_of kw' ''A'' = Some (case map_of kw ''A'' of None \<Rightarrow> Str '''' | Some v \<Rightarrow> v)
    \<and> map_of kw' ''P'' = Some (case map_of kw ''P'' of None \<Rightarrow> Str '''' | Some v \<Rightarrow> v)
    \<and> (\<forall>k. k \<noteq> ''A'' \<and> k \<noteq> ''P'' \<longrightarrow> map_of kw' k = map_of kw k)
    \<and> (\<forall>e \<in> set (drop (length (trace w)) (trace (snd (snd (psconvert env kwargs (self, w)))))).
          \<forall>h mo a. e = Call_Module h ''psconvert'' mo a \<longrightarrow> a = build_arg_string env kw')
    \<and> (\<forall>w1 h. figure env (name self) w = (Inr (), w1)
            \<and> GMT_Create_Session env w1 (GMT_SESSION_NAME env) (GMT_PAD_DEFAULT env)
                (GMT_SESSION_EXTERNAL env) None = Some h
          \<longrightarrow> trace (snd (snd (psconvert env kwargs (self, w)))) =
              trace w1 @
              [Create_Session (GMT_SESSION_NAME env) (GMT_PAD_DEFAULT env)
                 (GMT_SESSION_EXTERNAL env) None (Some h),
               Call_Module h ''psconvert'' (GMT_MODULE_CMD env) (build_arg_string env kw'),
               Destroy_Session h])"
proof -
  define kwA where "kwA = (if map_of kw ''A'' = None then AList.update ''A'' (Str '''') kw else kw)"
  define kw' where "kw' = (if map_of kwA ''P'' = None then AList.update ''P'' (Str '''') kwA else kwA)"
  have a: "map_of kw' ''A'' = Some (case map_of kw ''A'' of None \<Rightarrow> Str '''' | Some v \<Rightarrow> v)"
    unfolding kw'_def kwA_def by (rule defaults_lookup(1))
  have p: "map_of kw' ''P'' = Some (case map_of kw ''P'' of None \<Rightarrow> Str '''' | Some v \<Rightarrow> v)"
    unfolding kw'_def kwA_def by (rule defaults_lookup(2))
  have rest: "\<forall>k. k \<noteq> ''A'' \<and> k \<noteq> ''P'' \<longrightarrow> map_of kw' k = map_of kw k"
    unfolding kw'_def kwA_def using defaults_lookup(3) [of _ kw] by blast
  have tr: "trace (snd (snd (psconvert env kwargs (self, w)))) =
     (case figure env (name self) w of
        (Inl e, w1) \<Rightarrow> trace w1
      | (Inr u, w1) \<Rightarrow>
          trace w1 @
          (case GMT_Create_Session env w1 (GMT_SESSION_NAME env) (GMT_PAD_DEFAULT env)
                  (GMT_SESSION_EXTERNAL env) None of
             None \<Rightarrow> [Create_Session (GMT_SESSION_NAME env) (GMT_PAD_DEFAULT env)
                        (GMT_SESSION_EXTERNAL env) None None]
           | Some h \<Rightarrow>
               [Create_Session (GMT_SESSION_NAME env) (GMT_PAD_DEFAULT env)
                  (GMT_SESSION_EXTERNAL env) None (Some h),
                Call_Module h ''psconvert'' (GMT_MODULE_CMD env) (build_arg_string env kw'),
                Destroy_Session h]))"
  proof -
    have eq: "(let kwA = (if map_of kw ''A'' = None
                          then AList.update ''A'' (Str []) kw else kw)
               in if map_of kwA ''P'' = None
                  then AList.update ''P'' (Str []) kwA else kwA) = kw'"
      unfolding kw'_def kwA_def Let_def by (rule refl)
    show ?thesis
      using psconvert_body_trace [of env kw self w]
      unfolding eq psconvert_def assms [symmetric] .
  qed
  obtain r1 w1 where f: "figure env (name self) w = (r1, w1)"
    by (cases "figure env (name self) w")
  have ft: "trace w1 = trace w @
     (case GMT_Create_Session env w (GMT_SESSION_NAME env) (GMT_PAD_DEFAULT env)
             (GMT_SESSION_EXTERNAL env) None of
        None \<Rightarrow> [Create_Session (GMT_SESSION_NAME env) (GMT_PAD_DEFAULT env)
                   (GMT_SESSION_EXTERNAL env) None None]
      | Some h \<Rightarrow> [Create_Session (GMT_SESSION_NAME env) (GMT_PAD_DEFAULT env)
                     (GMT_SESSION_EXTERNAL env) None (Some h),
                   Call_Module h ''figure'' (GMT_MODULE_CMD env) (name self @ '' -''),
                   Destroy_Session h])"
    using figure_trace [of env "name self" w] f by simp
  have ev: "\<forall>e \<in> set (drop (length (trace w)) (trace (snd (snd (psconvert env kwargs (self, w)))))).
          \<forall>h mo a. e = Call_Module h ''psconvert'' mo a \<longrightarrow> a = build_arg_string env kw'"
    using tr f ft by (auto split: sum.splits option.splits)
  have ok: "\<forall>w1 h. figure env (name self) w = (Inr (), w1)
            \<and> GMT_Create_Session env w1 (GMT_SESSION_NAME env) (GMT_PAD_DEFAULT env)
                (GMT_SESSION_EXTERNAL env) None = Some h
          \<longrightarrow> trace (snd (snd (psconvert env kwargs (self, w)))) =
              trace w1 @
              [Create_Session (GMT_SESSION_NAME env) (GMT_PAD_DEFAULT env)
                 (GMT_SESSION_EXTERNAL env) None (Some h),
               Call_Module h ''psconvert'' (GMT_MODULE_CMD env) (build_arg_string env kw'),
               Destroy_Session h]"
    using tr by auto
  from a p rest ev ok show ?thesis by blast
qed

lemma example_figure_call:
  "figure example_env (name example_figure) example_world =
     (Inr (),
      \<lparr>trace = [Create_Session ''gmt-python-session'' 2 2 None (Some 1),
                Call_Module 1 ''figure'' 0 ''gmt-python-qk3x_7ab -'',
                Destroy_Session 1],
       files = {}, drawn = 0\<rparr>)"
  by (simp add: figure_def with_APISession_def create_session_def call_module_def
        destroy_session_def example_env_def example_world_def example_figure_def Let_def)

theorem psconvert_passes_crop_and_portrait_witness:
  "\<exists>kw'. map_of kw' ''A'' = Some (Str '''') \<and> map_of kw' ''P'' = Some (Str '''')
     \<and> map_of kw' ''F'' = Some (Str ''map'')
     \<and> trace (snd (snd (psconvert example_env [(''prefix'', Str ''map'')]
                           (example_figure, example_world)))) =
         [Create_Session ''gmt-python-session'' 2 2 None (Some 1),
          Call_Module 1 ''figure'' 0 ''gmt-python-qk3x_7ab -'',
          Destroy_Session 1,
          Create_Session ''gmt-python-session'' 2 2 None (Some 4),
          Call_Module 4 ''psconvert'' 0 (build_arg_string example_env kw'),
          Destroy_Session 4]"
proof -
  have kw: "[(''F'', Str ''map'')] =
      kwargs_to_strings example_env (use_alias example_env psconvert_aliases [(''prefix'', Str ''map'')])"
    by (simp add: example_env_def example_use_alias_def example_kwargs_to_strings_def
          psconvert_aliases_def)
  from psconvert_passes_crop_and_portrait [OF kw, of example_world example_figure]
  obtain kw' where
    a: "map_of kw' ''A'' = Some (case map_of [(''F'', Str ''map'')] ''A'' of
                                   None \<Rightarrow> Str '''' | Some v \<Rightarrow> v)"
    and p: "map_of kw' ''P'' = Some (case map_of [(''F'', Str ''map'')] ''P'' of
                                   None \<Rightarrow> Str '''' | Some v \<Rightarrow> v)"
    and rest: "\<forall>k. k \<noteq> ''A'' \<and> k \<noteq> ''P'' \<longrightarrow> map_of kw' k = map_of [(''F'', Str ''map'')] k"
    and ok: "\<forall>w1 h. figure example_env (name example_figure) example_world = (Inr (), w1)
            \<and> GMT_Create_Session example_env w1 (GMT_SESSION_NAME example_env)
                (GMT_PAD_DEFAULT example_env) (GMT_SESSION_EXTERNAL example_env) None = Some h
          \<longrightarrow> trace (snd (snd (psconvert example_env [(''prefix'', Str ''map'')]
                                (example_figure, example_world)))) =
              trace w1 @
              [Create_Session (GMT_SESSION_NAME example_env) (GMT_PAD_DEFAULT example_env)
                 (GMT_SESSION_EXTERNAL example_env) None (Some h),
               Call_Module h ''psconvert'' (GMT_MODULE_CMD example_env)
                 (build_arg_string example_env kw'),
               Destroy_Session h]"
    by blast
  have f: "map_of kw' ''F'' = Some (Str ''map'')"
    using rest by simp
  let ?w1 = "\<lparr>trace = [Create_Session ''gmt-python-session'' 2 2 None (Some 1),
                Call_Module 1 ''figure'' 0 ''gmt-python-qk3x_7ab -'',
                Destroy_Session 1],
       files = {}, drawn = 0\<rparr>"
  have h: "GMT_Create_Session example_env ?w1 (GMT_SESSION_NAME example_env)
                (GMT_PAD_DEFAULT example_env) (GMT_SESSION_EXTERNAL example_env) None = Some 4"
    by (simp add: example_env_def)
  have "trace (snd (snd (psconvert example_env [(''prefix'', Str ''map'')]
                                (example_figure, example_world)))) =
              trace ?w1 @
              [Create_Session (GMT_SESSION_NAME example_env) (GMT_PAD_DEFAULT example_env)
                 (GMT_SESSION_EXTERNAL example_env) None (Some 4),
               Call_Module 4 ''psconvert'' (GMT_MODULE_CMD example_env)
                 (build_arg_string example_env kw'),
               Destroy_Session 4]"
    using ok example_figure_call h by blast
  then have "trace (snd (snd (psconvert example_env [(''prefix'', Str ''map'')]
                           (example_figure, example_world)))) =
         [Create_Session ''gmt-python-session'' 2 2 None (Some 1),
          Call_Module 1 ''figure'' 0 ''gmt-python-qk3x_7ab -'',
          Destroy_Session 1,
          Create_Session ''gmt-python-session'' 2 2 None (Some 4),
          Call_Module 4 ''psconvert'' 0 (build_arg_string example_env kw'),
          Destroy_Session 4]"
    by (simp add: example_env_def)
  with a p f show ?thesis by auto
qed

lemma psconvert_body_self: "fst (snd (psconvert_body env kw (self, w))) = self"
  by (simp add: psconvert_body_unfold split: prod.splits sum.splits)

lemma savefig_self:
  "fst (snd (savefig env fname orientation transparent crop kwargs (self, w))) = self"
  by (simp add: savefig_unfold psconvert_def psconvert_body_self split: option.splits)

lemma png_preview_self: "fst (snd (png_preview env dpi anti_alias (self, w))) = self"
proof -
  have sf: "\<And>fname kw w1 r self2 w2.
      savefig env fname ''portrait'' False True kw (self, w1) = (r, (self2, w2)) \<Longrightarrow> self2 = self"
    using savefig_self by (metis fst_conv snd_conv)
  show ?thesis
    by (auto simp add: png_preview_def Let_def split: prod.splits sum.splits dest: sf)
qed

lemma Figure_show_self: "fst (snd (Figure_show env dpi width (self, w))) = self"
  using png_preview_self [of env dpi True self w]
  by (auto simp add: Figure_show_def split: prod.splits sum.splits)

lemma repr_png_self: "fst (snd (repr_png env (self, w))) = self"
  by (simp add: repr_png_def png_preview_self)

lemma with_APISession_call_module_files:
  "files (snd (with_APISession env (\<lambda>session. call_module env session m a) w)) =
     (case GMT_Create_Session env w (GMT_SESSION_NAME env) (GMT_PAD_DEFAULT env)
             (GMT_SESSION_EXTERNAL env) None of
        None \<Rightarrow> files w
      | Some h \<Rightarrow>
          snd (GMT_Call_Module env
                 (w\<lparr>trace := trace w @
                    [Create_Session (GMT_SESSION_NAME env) (GMT_PAD_DEFAULT env)
                       (GMT_SESSION_EXTERNAL env) None (Some h)]\<rparr>)
                 h m (GMT_MODULE_CMD env) a))"
  by (simp add: with_APISession_def create_session_def call_module_def destroy_session_def
        Let_def split: option.splits prod.splits)

lemma figure_files:
  "files (snd (figure env nm w)) =
     (case GMT_Create_Session env w (GMT_SESSION_NAME env) (GMT_PAD_DEFAULT env)
             (GMT_SESSION_EXTERNAL env) None of
        None \<Rightarrow> files w
      | Some h \<Rightarrow>
          snd (GMT_Call_Module env
                 (w\<lparr>trace := trace w @
                    [Create_Session (GMT_SESSION_NAME env) (GMT_PAD_DEFAULT env)
                       (GMT_SESSION_EXTERNAL env) None (Some h)]\<rparr>)
                 h ''figure'' (GMT_MODULE_CMD env) (nm @ '' -'')))"
  using with_APISession_call_module_files [of env "''figure''" "nm @ '' -''" w]
  by (simp add: figure_def)

lemma preprocess_world:
  "snd (snd (preprocess env kwargs (self, w))) = snd (figure env (name self) w)"
  by (simp add: preprocess_def split: prod.splits sum.splits)

text \<open>
  C10. \<open>Figure._preprocess\<close>, and so \<open>Figure.psconvert\<close> and every command routed through
  it, starts with a scoped session whose one module call is \<open>figure\<close> with the object's own
  stored name and the format \<open>-\<close>; when the session cannot be created there is no module call
  at all. \<open>psconvert\<close> is that figure call followed, when it succeeds, by one scoped
  psconvert call. The wrapper itself writes nothing during the preliminary call: the files
  after it are exactly those the native figure call with format \<open>-\<close> leaves, so with a library
  that writes no file for the format \<open>-\<close> (what the comment in \<open>figure\<close> says of it) the
  preliminary call generates no file. No method changes the object: after \<open>_preprocess\<close>,
  \<open>psconvert\<close>, \<open>savefig\<close>, \<open>_png_preview\<close>, \<open>show\<close> and \<open>_repr_png_\<close> it is the object
  they were called on, with the name given at construction.
\<close>

theorem psconvert_targets_own_figure:
  "fst (snd (preprocess env kwargs (self, w))) = self
   \<and> fst (snd (psconvert env kwargs (self, w))) = self
   \<and> fst (snd (savefig env fname orientation transparent crop kwargs (self, w))) = self
   \<and> fst (snd (png_preview env dpi anti_alias (self, w))) = self
   \<and> fst (snd (Figure_show env dpi width (self, w))) = self
   \<and> fst (snd (repr_png env (self, w))) = self
   \<and> trace (snd (snd (preprocess env kwargs (self, w)))) =
       trace w @
       (case GMT_Create_Session env w (GMT_SESSION_NAME env) (GMT_PAD_DEFAULT env)
               (GMT_SESSION_EXTERNAL env) None of
          None \<Rightarrow> [Create_Session (GMT_SESSION_NAME env) (GMT_PAD_DEFAULT env)
                     (GMT_SESSION_EXTERNAL env) None None]
        | Some h \<Rightarrow> [Create_Session (GMT_SESSION_NAME env) (GMT_PAD_DEFAULT env)
                       (GMT_SESSION_EXTERNAL env) None (Some h),
                     Call_Module h ''figure'' (GMT_MODULE_CMD env) (name self @ '' -''),
                     Destroy_Session h])
   \<and> (\<exists>rest. trace (snd (snd (psconvert env kwargs (self, w)))) =
       trace w @
       (case GMT_Create_Session env w (GMT_SESSION_NAME env) (GMT_PAD_DEFAULT env)
               (GMT_SESSION_EXTERNAL env) None of
          None \<Rightarrow> [Create_Session (GMT_SESSION_NAME env) (GMT_PAD_DEFAULT env)
                     (GMT_SESSION_EXTERNAL env) None None]
        | Some h \<Rightarrow> [Create_Session (GMT_SESSION_NAME env) (GMT_PAD_DEFAULT env)
                       (GMT_SESSION_EXTERNAL env) None (Some h),
                     Call_Module h ''figure'' (GMT_MODULE_CMD env) (name self @ '' -''),
                     Destroy_Session h]) @ rest)
   \<and> snd (snd (preprocess env kwargs (self, w))) = snd (figure env (name self) w)
   \<and> (\<exists>args. psconvert env kwargs (self, w) =
         (case figure env (name self) w of
            (Inl e, w1) \<Rightarrow> (Inl e, (self, w1))
          | (Inr u, w1) \<Rightarrow>
              (case with_APISession env
                      (\<lambda>session. call_module env session ''psconvert'' args) w1 of
                 (r, w2) \<Rightarrow> (r, (self, w2)))))
   \<and> files (snd (figure env (name self) w)) =
       (case GMT_Create_Session env w (GMT_SESSION_NAME env) (GMT_PAD_DEFAULT env)
               (GMT_SESSION_EXTERNAL env) None of
          None \<Rightarrow> files w
        | Some h \<Rightarrow>
            snd (GMT_Call_Module env
                   (w\<lparr>trace := trace w @
                      [Create_Session (GMT_SESSION_NAME env) (GMT_PAD_DEFAULT env)
                         (GMT_SESSION_EXTERNAL env) None (Some h)]\<rparr>)
                   h ''figure'' (GMT_MODULE_CMD env) (name self @ '' -'')))
   \<and> ((\<forall>w' h. snd (GMT_Call_Module env w' h ''figure'' (GMT_MODULE_CMD env)
                       (name self @ '' -'')) = files w')
        \<longrightarrow> files (snd (figure env (name self) w)) = files w
            \<and> files (snd (snd (preprocess env kwargs (self, w)))) = files w)"
proof -
  let ?fe = "(case GMT_Create_Session env w (GMT_SESSION_NAME env) (GMT_PAD_DEFAULT env)
               (GMT_SESSION_EXTERNAL env) None of
          None \<Rightarrow> [Create_Session (GMT_SESSION_NAME env) (GMT_PAD_DEFAULT env)
                     (GMT_SESSION_EXTERNAL env) None None]
        | Some h \<Rightarrow> [Create_Session (GMT_SESSION_NAME env) (GMT_PAD_DEFAULT env)
                       (GMT_SESSION_EXTERNAL env) None (Some h),
                     Call_Module h ''figure'' (GMT_MODULE_CMD env) (name self @ '' -''),
                     Destroy_Session h])"
  let ?kw = "kwargs_to_strings env (use_alias env psconvert_aliases kwargs)"
  obtain r1 w1 where f: "figure env (name self) w = (r1, w1)"
    by (cases "figure env (name self) w")
  have ft: "trace w1 = trace w @ ?fe"
    using figure_trace [of env "name self" w] f by simp
  have pw: "snd (snd (preprocess env kwargs (self, w))) = snd (figure env (name self) w)"
    by (rule preprocess_world)
  have pre: "trace (snd (snd (preprocess env kwargs (self, w)))) = trace w @ ?fe"
    using pw f ft by simp
  have "\<exists>rest. trace (snd (snd (psconvert_body env kw (self, w)))) = trace w @ ?fe @ rest" for kw
  proof (cases r1)
    case (Inl e)
    then have "trace (snd (snd (psconvert_body env kw (self, w)))) = trace w @ ?fe @ []"
      using f ft psconvert_body_trace [of env kw self w] by simp
    then show ?thesis by blast
  next
    case (Inr u)
    then show ?thesis
      using f ft psconvert_body_trace [of env kw self w] by simp
  qed
  then have ps: "\<exists>rest. trace (snd (snd (psconvert env kwargs (self, w)))) = trace w @ ?fe @ rest"
    unfolding psconvert_def by blast
  have step: "\<exists>args. psconvert env kwargs (self, w) =
         (case figure env (name self) w of
            (Inl e, w1) \<Rightarrow> (Inl e, (self, w1))
          | (Inr u, w1) \<Rightarrow>
              (case with_APISession env
                      (\<lambda>session. call_module env session ''psconvert'' args) w1 of
                 (r, w2) \<Rightarrow> (r, (self, w2))))"
    unfolding psconvert_def using psconvert_body_unfold [of env ?kw self w] by blast
  have ff: "files (snd (figure env (name self) w)) =
       (case GMT_Create_Session env w (GMT_SESSION_NAME env) (GMT_PAD_DEFAULT env)
               (GMT_SESSION_EXTERNAL env) None of
          None \<Rightarrow> files w
        | Some h \<Rightarrow>
            snd (GMT_Call_Module env
                   (w\<lparr>trace := trace w @
                      [Create_Session (GMT_SESSION_NAME env) (GMT_PAD_DEFAULT env)
                         (GMT_SESSION_EXTERNAL env) None (Some h)]\<rparr>)
                   h ''figure'' (GMT_MODULE_CMD env) (name self @ '' -'')))"
    by (rule figure_files)
  have nf: "(\<forall>w' h. snd (GMT_Call_Module env w' h ''figure'' (GMT_MODULE_CMD env)
                       (name self @ '' -'')) = files w')
        \<longrightarrow> files (snd (figure env (name self) w)) = files w
            \<and> files (snd (snd (preprocess env kwargs (self, w)))) = files w"
    using ff pw by (auto split: option.splits)
  have selfs: "fst (snd (preprocess env kwargs (self, w))) = self"
    "fst (snd (psconvert env kwargs (self, w))) = self"
    "fst (snd (savefig env fname orientation transparent crop kwargs (self, w))) = self"
    "fst (snd (png_preview env dpi anti_alias (self, w))) = self"
    "fst (snd (Figure_show env dpi width (self, w))) = self"
    "fst (snd (repr_png env (self, w))) = self"
    by (simp_all add: preprocess_self psconvert_def psconvert_body_self savefig_self
          png_preview_self Figure_show_self repr_png_self)
  from selfs pre ps pw step ff nf show ?thesis by blast
qed

theorem psconvert_targets_own_figure_witness:
  "files (snd (figure example_env (name example_figure) example_world)) = files example_world
   \<and> files (snd (snd (preprocess example_env [] (example_figure, example_world)))) =
       files example_world
   \<and> fst (snd (Figure_show preview_env 300 500 (example_figure, example_world))) =
       example_figure"
proof -
  note t = psconvert_targets_own_figure [of example_env "[]" example_figure example_world
             "''map.png''" "''portrait''" False True 300 True 500]
  have honours: "\<forall>w' h. snd (GMT_Call_Module example_env w' h ''figure''
                    (GMT_MODULE_CMD example_env) (name example_figure @ '' -'')) = files w'"
    by (simp add: example_env_def)
  from t honours have
    "files (snd (figure example_env (name example_figure) example_world)) = files example_world
     \<and> files (snd (snd (preprocess example_env [] (example_figure, example_world)))) =
         files example_world"
    by blast
  moreover have "fst (snd (Figure_show preview_env 300 500 (example_figure, example_world))) =
       example_figure"
    using psconvert_targets_own_figure [of preview_env "[]" example_figure example_world
             "''map.png''" "''portrait''" False True 300 True 500]
    by blast
  ultimately show ?thesis by blast
qed

section \<open>Two runs on the concrete library\<close>

text \<open>Saving a transparent PNG with a library that succeeds, and a conversion with a
  library whose module calls fail: the session of the failing call is released all the
  same, and the conversion's own session is never opened.\<close>

lemma example_savefig:
  "savefig example_env ''map.png'' ''portrait'' True True [] (example_figure, example_world) =
     (Inr (), example_figure,
      \<lparr>trace = [Create_Session ''gmt-python-session'' 2 2 None (Some 1),
                Call_Module 1 ''figure'' 0 ''gmt-python-qk3x_7ab -'',
                Destroy_Session 1,
                Create_Session ''gmt-python-session'' 2 2 None (Some 4),
                Call_Module 4 ''psconvert'' 0 '' -Fmap -TG -A -P'',
                Destroy_Session 4],
       files = {''out''}, drawn = 0\<rparr>)"
  by (simp add: savefig_def splitext_def fmts_def upper_def char_upper_def psconvert_def
        psconvert_body_def preprocess_def psconvert_aliases_def
        figure_def with_APISession_def create_session_def call_module_def
        destroy_session_def example_env_def example_world_def example_figure_def
        example_use_alias_def example_kwargs_to_strings_def example_build_arg_string_def Let_def)

lemma example_failing_psconvert:
  "psconvert failing_env [(''prefix'', Str ''map'')] (example_figure, example_world) =
     (Inl (AssertionError (Failed_with_status 1)), example_figure,
      \<lparr>trace = [Create_Session ''gmt-python-session'' 2 2 None (Some 1),
                Call_Module 1 ''figure'' 0 ''gmt-python-qk3x_7ab -'',
                Destroy_Session 1],
       files = {}, drawn = 0\<rparr>)"
  by (simp add: psconvert_def
        psconvert_body_def preprocess_def psconvert_aliases_def
        figure_def with_APISession_def create_session_def call_module_def
        destroy_session_def failing_env_def example_env_def example_world_def example_figure_def
        example_use_alias_def example_kwargs_to_strings_def example_build_arg_string_def Let_def)

text \<open>\<open>show\<close> with a library that writes the preview: the image holds the bytes read, and
  the temporary directory is gone afterwards.\<close>

lemma example_show:
  "Figure_show preview_env 300 500 (example_figure, example_world) =
     (Inr (Image ''PNG'' 500), example_figure,
      \<lparr>trace = [Create_Session ''gmt-python-session'' 2 2 None (Some 1),
                Call_Module 1 ''figure'' 0 ''gmt-python-qk3x_7ab -'',
                Destroy_Session 1,
                Create_Session ''gmt-python-session'' 2 2 None (Some 4),
                Call_Module 4 ''psconvert'' 0
                  '' -F/tmp/tmpqk3x_7ab/gmt-python-qk3x_7ab-preview -Tg -A -P -E -Qg -Qt'',
                Destroy_Session 4],
       files = {}, drawn = 1\<rparr>)"
  by (auto simp add: Figure_show_def png_preview_def mkdtemp_def mkstemp_inner_pos path_join_def
        cleanup_def read_bytes_def
        savefig_def splitext_def fmts_def upper_def char_upper_def psconvert_def
        psconvert_body_def preprocess_def psconvert_aliases_def
        figure_def with_APISession_def create_session_def call_module_def
        destroy_session_def preview_env_def example_env_def example_world_def example_figure_def
        example_use_alias_def example_kwargs_to_strings_def example_build_arg_string_def Let_def)

end
